theory Spec2Isabelle
  imports Complex_Main
begin

section \<open>Python strings\<close>

text \<open>
  A Python \<open>str\<close> is modelled as a \<open>string\<close>, each \<open>char\<close> read as the code point of
  the same number (U+0000 to U+00FF). On this range \<open>str.strip()\<close> removes the
  characters for which \<open>str.isspace()\<close> holds, and \<open>str.lower()\<close> maps character by
  character.
\<close>

definition whitespace :: "char list" where
  "whitespace =
     [CHR 0x09, CHR 0x0A, CHR 0x0B, CHR 0x0C, CHR 0x0D, CHR 0x1C, CHR 0x1D, CHR 0x1E,
      CHR 0x1F, CHR 0x20, CHR 0x85, CHR 0xA0]"

definition isspace :: "char \<Rightarrow> bool" where
  "isspace c = (c \<in> set whitespace)"

text \<open>\<open>s.strip(chars)\<close>: drop the leading and the trailing characters that are in \<open>chars\<close>.\<close>

definition strip_chars :: "(char \<Rightarrow> bool) \<Rightarrow> string \<Rightarrow> string" where
  "strip_chars p s = rev (dropWhile p (rev (dropWhile p s)))"

definition strip :: "string \<Rightarrow> string" where
  "strip s = strip_chars isspace s"

definition lower_char :: "char \<Rightarrow> char" where
  "lower_char c =
     (let n = (of_char c :: nat)
      in if (65 \<le> n \<and> n \<le> 90) \<or> (192 \<le> n \<and> n \<le> 222 \<and> n \<noteq> 215)
         then char_of (n + 32) else c)"

definition lower :: "string \<Rightarrow> string" where
  "lower s = map lower_char s"

text \<open>\<open>sep.join(xs)\<close>\<close>

fun join :: "string \<Rightarrow> string list \<Rightarrow> string" where
  "join sep [] = []"
| "join sep [x] = x"
| "join sep (x # y # ys) = x @ sep @ join sep (y # ys)"

text \<open>\<open>s.replace(old, "")\<close> for a one-character \<open>old\<close>.\<close>

definition remove_char :: "char \<Rightarrow> string \<Rightarrow> string" where
  "remove_char c s = filter (\<lambda>x. x \<noteq> c) s"

section \<open>convert\_icd11\_to\_json.py: building the dictionary\<close>

text \<open>
  A row is the dictionary \<open>csv.DictReader\<close> yields for a line of the export, from column
  names to strings; \<open>row.get(k, "")\<close> is the value, or the empty string when the export
  has no column \<open>k\<close>. Every value is a string: a line with fewer fields than the header,
  for which the reader stores \<open>None\<close>, is not a row of this model.
\<close>

type_synonym row = "string \<rightharpoonup> string"

definition row_get :: "row \<Rightarrow> string \<Rightarrow> string" where
  "row_get r k = (case r k of None \<Rightarrow> [] | Some v \<Rightarrow> v)"

text \<open>
  A value of the dictionary, as \<open>json.load\<close> returns it: an object whose members are strings
  or null (\<open>{"code": ..., "desc": ...}\<close>, kept as the list of its members, with distinct
  names), or a bare string. These are the two shapes the service tells apart with
  \<open>isinstance(icd_info, dict)\<close>, with the values the response model admits for a code and
  a description. The builder writes objects with the members \<open>code\<close> and \<open>desc\<close>, and the
  dictionary it dumps is read back unchanged.
\<close>

datatype icd_value = IcdDict "(string \<times> string option) list" | IcdStr string

type_synonym icd_table = "string \<rightharpoonup> icd_value"

definition title_of :: "row \<Rightarrow> string" where
  "title_of r = strip (remove_char (CHR ''-'') (strip_chars (\<lambda>c. c = CHR 0x22) (strip (row_get r ''Title''))))"

definition code_of :: "row \<Rightarrow> string" where
  "code_of r = strip (row_get r ''Code'')"

definition class_kind_of :: "row \<Rightarrow> string" where
  "class_kind_of r = strip (row_get r ''ClassKind'')"

text \<open>The body of the loop over the rows (lines 12 to 18).\<close>

definition add_row :: "icd_table \<Rightarrow> row \<Rightarrow> icd_table" where
  "add_row icd_dict r =
     (let code = code_of r;
          title = title_of r;
          class_kind = class_kind_of r
      in if code \<noteq> [] \<and> title \<noteq> [] \<and> class_kind = ''category''
         then let key = lower title
              in icd_dict(key \<mapsto> IcdDict [(''code'', Some code), (''desc'', Some title)])
         else icd_dict)"

definition build_icd_dict :: "row list \<Rightarrow> icd_table" where
  "build_icd_dict rows = foldl add_row Map.empty rows"

section \<open>mednlp\_service.py: the service\<close>

subsection \<open>Start-up\<close>

text \<open>
  An exception is an \<open>HTTPException\<close> with its status code and detail, or anything else
  (raised by the model, by opening or by parsing a file). The handler of \<open>analyze\<close> builds
  its detail as \<open>str(e)\<close> from the exception it caught, kept here as \<open>StrOf e\<close>.
\<close>

datatype exn = HTTPException nat detail | OtherException string
  and detail = Literal string | StrOf exn

text \<open>
  What \<open>spacy.load(NLP_MODEL)\<close> returns is used as a function from the text to its
  entities (\<open>nlp(text).ents\<close>), each with \<open>text\<close> and \<open>label_\<close>; the call may raise.
\<close>

record ent =
  ent_text :: string
  ent_label :: string

type_synonym extractor = "string \<Rightarrow> exn + ent list"

text \<open>
  Lines 16 to 31. The two arguments are the outcomes of \<open>spacy.load\<close> and of reading and
  parsing the dictionary file. A failure of the first is raised again and ends the process;
  a failure of the second is logged and leaves \<open>ICD11_DICT = {}\<close>.
\<close>

definition startup :: "exn + extractor \<Rightarrow> exn + icd_table \<Rightarrow> exn + (extractor \<times> icd_table)" where
  "startup load_model load_dict =
     (case load_model of
        Inl e \<Rightarrow> Inl e
      | Inr nlp \<Rightarrow>
          Inr (nlp, case load_dict of Inl e \<Rightarrow> Map.empty | Inr ICD11_DICT \<Rightarrow> ICD11_DICT))"

subsection \<open>The analyze operation\<close>

text \<open>
  The request and the response. The fields of an entity result and of an entry of
  \<open>icd_codes\<close> are those of the source, with a prefix that keeps the two records apart.
\<close>

record AnalyzeRequest =
  diagnosis :: "string option"
  prescription :: "string option"
  treatment :: "string option"

record EntityResult =
  er_text :: string
  er_label :: string
  er_icd_code :: "string option"
  er_icd_description :: "string option"
  er_confidence :: real

record CodeResult =
  cr_entity :: string
  cr_icd_code :: "string option"
  cr_icd_description :: "string option"
  cr_confidence :: real

record AnalyzeResponse =
  entities :: "EntityResult list"
  icd_codes :: "CodeResult list"

text \<open>\<open>x or ""\<close> for an optional string.\<close>

definition or_empty :: "string option \<Rightarrow> string" where
  "or_empty x = (case x of None \<Rightarrow> [] | Some s \<Rightarrow> s)"

text \<open>Line 58.\<close>

definition request_text :: "AnalyzeRequest \<Rightarrow> string" where
  "request_text request =
     strip (join '' '' [or_empty (diagnosis request), or_empty (prescription request),
                        or_empty (treatment request)])"

text \<open>Truth values of Python: of the looked-up \<open>icd_info\<close> and of \<open>icd_code\<close>.\<close>

definition info_truthy :: "icd_value option \<Rightarrow> bool" where
  "info_truthy x =
     (case x of None \<Rightarrow> False | Some (IcdDict d) \<Rightarrow> d \<noteq> [] | Some (IcdStr s) \<Rightarrow> s \<noteq> [])"

definition str_truthy :: "string option \<Rightarrow> bool" where
  "str_truthy x = (case x of None \<Rightarrow> False | Some s \<Rightarrow> s \<noteq> [])"

text \<open>\<open>d.get(k)\<close>: \<open>None\<close> for a missing member and for a member that is null.\<close>

definition dict_get :: "(string \<times> string option) list \<Rightarrow> string \<Rightarrow> string option" where
  "dict_get d k = (case map_of d k of None \<Rightarrow> None | Some v \<Rightarrow> v)"

text \<open>
  Lines 68 to 79: the look-up of one entity. The record holds the local variables
  \<open>icd_info\<close>, \<open>icd_code\<close>, \<open>icd_description\<close> and \<open>confidence\<close> as they are after line 79;
  the confidence is the float 1.0 or 0.0, and \<open>ent_text'\<close> is the variable \<open>ent_text\<close> of
  line 68.
\<close>

record ent_lookup =
  icd_info :: "icd_value option"
  icd_code :: "string option"
  icd_description :: "string option"
  confidence :: real

definition lookup_ent :: "icd_table \<Rightarrow> ent \<Rightarrow> ent_lookup" where
  "lookup_ent ICD11_DICT e =
     (let ent_text' = lower (strip (ent_text e));
          info = ICD11_DICT ent_text';
          l = \<lparr>icd_info = info, icd_code = None, icd_description = None,
               confidence = (if info_truthy info then 1 else 0)\<rparr>
      in if info_truthy info
         then (case info of
                 Some (IcdDict d) \<Rightarrow>
                   l\<lparr>icd_code := dict_get d ''code'', icd_description := dict_get d ''desc''\<rparr>
               | Some (IcdStr s) \<Rightarrow> l\<lparr>icd_code := Some s\<rparr>
               | None \<Rightarrow> l)
         else l)"

text \<open>The variables the loop updates.\<close>

record loop_state =
  ls_entities :: "EntityResult list"
  ls_icd_codes :: "CodeResult list"
  ls_seen_codes :: "string set"

text \<open>Lines 80 to 87: the entry of \<open>icd_codes\<close>, added under the two nested conditions.\<close>

definition add_code :: "loop_state \<Rightarrow> ent \<Rightarrow> ent_lookup \<Rightarrow> loop_state" where
  "add_code st e l =
     (case icd_code l of
        None \<Rightarrow> st
      | Some c \<Rightarrow>
          if info_truthy (icd_info l) \<and> c \<noteq> [] \<and> c \<notin> ls_seen_codes st
          then st\<lparr>ls_icd_codes := ls_icd_codes st @
                     [\<lparr>cr_entity = ent_text e, cr_icd_code = icd_code l,
                       cr_icd_description = icd_description l,
                       cr_confidence = confidence l\<rparr>],
                   ls_seen_codes := insert c (ls_seen_codes st)\<rparr>
          else st)"

text \<open>Lines 88 to 94: the entry of \<open>entities\<close>.\<close>

definition entity_of :: "ent \<Rightarrow> ent_lookup \<Rightarrow> EntityResult" where
  "entity_of e l =
     \<lparr>er_text = ent_text e, er_label = ent_label e, er_icd_code = icd_code l,
      er_icd_description = icd_description l, er_confidence = confidence l\<rparr>"

text \<open>Lines 67 to 94: the body of the loop, for one entity.\<close>

definition loop_body :: "icd_table \<Rightarrow> loop_state \<Rightarrow> ent \<Rightarrow> loop_state" where
  "loop_body ICD11_DICT st e =
     (let l = lookup_ent ICD11_DICT e;
          st1 = add_code st e l
      in st1\<lparr>ls_entities := ls_entities st1 @ [entity_of e l]\<rparr>)"

definition run_loop :: "icd_table \<Rightarrow> ent list \<Rightarrow> AnalyzeResponse" where
  "run_loop ICD11_DICT ents =
     (let st = foldl (loop_body ICD11_DICT)
                 \<lparr>ls_entities = [], ls_icd_codes = [], ls_seen_codes = {}\<rparr> ents
      in \<lparr>entities = ls_entities st, icd_codes = ls_icd_codes st\<rparr>)"

text \<open>
  Lines 58 to 96, the body of the \<open>try\<close>. The second component is the list of the texts
  the extractor was called with, in order.
\<close>

definition analyze_try :: "extractor \<Rightarrow> icd_table \<Rightarrow> AnalyzeRequest \<Rightarrow> (exn + AnalyzeResponse) \<times> string list" where
  "analyze_try nlp ICD11_DICT request =
     (let text = request_text request
      in if text = [] then (Inl (HTTPException 400 (Literal ''No text provided.'')), [])
         else (case nlp text of
                 Inl e \<Rightarrow> (Inl e, [text])
               | Inr ents \<Rightarrow> (Inr (run_loop ICD11_DICT ents), [text])))"

text \<open>
  Lines 56 to 99: \<open>except Exception\<close> catches whatever the body raised, an
  \<open>HTTPException\<close> included, and raises an \<open>HTTPException\<close> with status 500.
\<close>

definition analyze :: "extractor \<Rightarrow> icd_table \<Rightarrow> AnalyzeRequest \<Rightarrow> (exn + AnalyzeResponse) \<times> string list" where
  "analyze nlp ICD11_DICT request =
     (case analyze_try nlp ICD11_DICT request of
        (Inl e, calls) \<Rightarrow> (Inl (HTTPException 500 (StrOf e)), calls)
      | (Inr response, calls) \<Rightarrow> (Inr response, calls))"

section \<open>Notions used in the statements\<close>

text \<open>
  The text of a request as the specification words it: the non-empty fields, joined with a
  single space, then trimmed.
\<close>

definition spec_request_text :: "AnalyzeRequest \<Rightarrow> string" where
  "spec_request_text request =
     strip (join '' '' (filter (\<lambda>s. s \<noteq> [])
       [or_empty (diagnosis request), or_empty (prescription request),
        or_empty (treatment request)]))"

text \<open>The test of line 16, the key of line 17 and the value of line 18, for one row.\<close>

definition accepted :: "row \<Rightarrow> bool" where
  "accepted r = (code_of r \<noteq> [] \<and> title_of r \<noteq> [] \<and> class_kind_of r = ''category'')"

definition key_of :: "row \<Rightarrow> string" where
  "key_of r = lower (title_of r)"

definition entry_of :: "row \<Rightarrow> icd_value" where
  "entry_of r = IcdDict [(''code'', Some (code_of r)), (''desc'', Some (title_of r))]"

text \<open>
  The entries the loop adds to \<open>icd_codes\<close> over a list of entities, from a given set of
  codes already seen: the loop of lines 67 to 94 restricted to \<open>icd_codes\<close> and
  \<open>seen_codes\<close>, written as a recursion.
\<close>

definition code_result_of :: "ent \<Rightarrow> ent_lookup \<Rightarrow> CodeResult" where
  "code_result_of e l =
     \<lparr>cr_entity = ent_text e, cr_icd_code = icd_code l,
      cr_icd_description = icd_description l, cr_confidence = confidence l\<rparr>"

fun code_results :: "icd_table \<Rightarrow> string set \<Rightarrow> ent list \<Rightarrow> CodeResult list" where
  "code_results t seen [] = []"
| "code_results t seen (e # es) =
     (case icd_code (lookup_ent t e) of
        None \<Rightarrow> code_results t seen es
      | Some c \<Rightarrow>
          if c \<noteq> [] \<and> c \<notin> seen
          then code_result_of e (lookup_ent t e) # code_results t (insert c seen) es
          else code_results t seen es)"

section \<open>Example inputs\<close>

text \<open>Rows of an export, used to evaluate the statements below.\<close>

definition row_cholera :: row where
  "row_cholera = [''Code'' \<mapsto> ''1A00'', ''Title'' \<mapsto> ''Cholera'', ''ClassKind'' \<mapsto> '' category'']"

definition row_hyphen :: row where
  "row_hyphen = [''Code'' \<mapsto> ''1B2Z'', ''Title'' \<mapsto> ''Non-specific'', ''ClassKind'' \<mapsto> ''category'']"

definition row_typhoid :: row where
  "row_typhoid = [''Code'' \<mapsto> '' 1A07'', ''Title'' \<mapsto> ''\"Typhoid fever\" '', ''ClassKind'' \<mapsto> ''category'']"

definition row_typhoid2 :: row where
  "row_typhoid2 = [''Code'' \<mapsto> ''1A07.Z'', ''Title'' \<mapsto> ''typhoid-fever'', ''ClassKind'' \<mapsto> ''category'']"

text \<open>
  An extractor that returns a fixed list of entities, the dictionary and the entities of the
  scenario of two spellings of one term, a request, and a dictionary whose entry has an
  empty code.
\<close>

definition stub_extractor :: "ent list \<Rightarrow> extractor" where
  "stub_extractor ents = (\<lambda>text. Inr ents)"

definition table_fracture :: icd_table where
  "table_fracture = [''fracture'' \<mapsto> IcdDict [(''code'', Some ''FA01''), (''desc'', Some ''Fracture'')]]"

definition table_empty_code :: icd_table where
  "table_empty_code = [''fracture'' \<mapsto> IcdDict [(''code'', Some ''''), (''desc'', Some ''Fracture'')]]"

definition ents_fracture :: "ent list" where
  "ents_fracture =
     [\<lparr>ent_text = ''fracture'', ent_label = ''DISEASE''\<rparr>,
      \<lparr>ent_text = ''Fracture'', ent_label = ''DISEASE''\<rparr>]"

definition ents_visit :: "ent list" where
  "ents_visit =
     [\<lparr>ent_text = '' Fracture'', ent_label = ''DISEASE''\<rparr>,
      \<lparr>ent_text = ''cough'', ent_label = ''SYMPTOM''\<rparr>]"

definition request_fracture :: AnalyzeRequest where
  "request_fracture = \<lparr>diagnosis = Some ''fracture'', prescription = None, treatment = Some ''Fracture''\<rparr>"

text \<open>
  A dictionary whose entries are an empty object and an empty string; a dictionary with an
  entry of each shape, and entities that meet each of them and a missing key; the scenario
  preceded by an entity that is not in the dictionary.
\<close>

definition table_falsy :: icd_table where
  "table_falsy = [''fracture'' \<mapsto> IcdDict [], ''cough'' \<mapsto> IcdStr '''']"

definition table_shapes :: icd_table where
  "table_shapes =
     [''fracture'' \<mapsto> IcdDict [(''code'', Some ''FA01''), (''desc'', Some ''Fracture'')],
      ''cough'' \<mapsto> IcdStr ''MD12'',
      ''fever'' \<mapsto> IcdDict []]"

definition ents_shapes :: "ent list" where
  "ents_shapes =
     [\<lparr>ent_text = '' Fracture'', ent_label = ''DISEASE''\<rparr>,
      \<lparr>ent_text = ''cough'', ent_label = ''SYMPTOM''\<rparr>,
      \<lparr>ent_text = ''fever'', ent_label = ''SYMPTOM''\<rparr>,
      \<lparr>ent_text = ''rash'', ent_label = ''SYMPTOM''\<rparr>]"

definition ents_cough_fracture :: "ent list" where
  "ents_cough_fracture =
     [\<lparr>ent_text = ''cough'', ent_label = ''SYMPTOM''\<rparr>,
      \<lparr>ent_text = ''fracture'', ent_label = ''DISEASE''\<rparr>,
      \<lparr>ent_text = ''Fracture'', ent_label = ''DISEASE''\<rparr>]"

section \<open>Properties of the string operations\<close>

lemmas string_defs = strip_def strip_chars_def isspace_def whitespace_def lower_def
  lower_char_def remove_char_def char_of_def bit_Suc_0_iff

lemma dropWhile_all: "\<forall>c\<in>set s. p c \<Longrightarrow> dropWhile p s = []"
  by simp

lemma strip_chars_snoc: "p c \<Longrightarrow> strip_chars p (s @ [c]) = strip_chars p s"
  by (simp add: strip_chars_def dropWhile_append dropWhile_all)

lemma strip_chars_Cons: "p c \<Longrightarrow> strip_chars p (c # s) = strip_chars p s"
  by (simp add: strip_chars_def)

lemma strip_chars_Nil_iff: "strip_chars p s = [] \<longleftrightarrow> (\<forall>c\<in>set s. p c)"
  unfolding strip_chars_def
  by (metis dropWhile_eq_Nil_conv dropWhile_idem rev_is_Nil_conv set_rev)

lemma rstrip_prefix: "rev (dropWhile p (rev xs)) @ rev (takeWhile p (rev xs)) = xs"
  by (metis rev_append rev_rev_ident takeWhile_dropWhile_id)

text \<open>Stripping twice is stripping once.\<close>

lemma strip_chars_idem: "strip_chars p (strip_chars p s) = strip_chars p s"
proof -
  define u where "u = dropWhile p s"
  define t where "t = rev (dropWhile p (rev u))"
  have tu: "t @ rev (takeWhile p (rev u)) = u"
    unfolding t_def by (rule rstrip_prefix)
  have "dropWhile p t = t"
  proof (cases "t = []")
    case True
    then show ?thesis by simp
  next
    case False
    then have "u \<noteq> []" using tu by auto
    then have "\<not> p (hd u)" unfolding u_def by (rule hd_dropWhile)
    moreover have "hd t = hd u" using tu False by (metis hd_append2)
    ultimately show ?thesis by (simp add: dropWhile_eq_self_iff)
  qed
  moreover have "dropWhile p (rev t) = rev t"
    unfolding t_def by simp
  ultimately have "strip_chars p t = t"
    by (simp add: strip_chars_def)
  then show ?thesis by (simp add: strip_chars_def t_def u_def)
qed

lemma strip_idem: "strip (strip s) = strip s"
  by (simp add: strip_def strip_chars_idem)

lemma isspace_space: "isspace (CHR '' '')"
  by (simp add: isspace_def whitespace_def)

lemma strip_space_Cons: "strip (CHR '' '' # s) = strip s"
  by (simp add: strip_def strip_chars_Cons isspace_space)

lemma strip_space_snoc: "strip (s @ '' '') = strip s"
  by (simp add: strip_def strip_chars_snoc isspace_space)

lemma strip_Nil_iff: "strip s = [] \<longleftrightarrow> (\<forall>c\<in>set s. isspace c)"
  by (simp add: strip_def strip_chars_Nil_iff)

section \<open>The text of a request\<close>

lemma request_text_unfold:
  "request_text request =
     strip (or_empty (diagnosis request) @ '' '' @ or_empty (prescription request) @ '' '' @
            or_empty (treatment request))"
  by (simp add: request_text_def)

text \<open>A failure of the extractor is raised as an \<open>HTTPException\<close> with status 500.\<close>

lemma analyze_extractor_failure:
  "request_text request \<noteq> [] \<Longrightarrow> nlp (request_text request) = Inl e \<Longrightarrow>
     analyze nlp ICD11_DICT request = (Inl (HTTPException 500 (StrOf e)), [request_text request])"
  by (simp add: analyze_def analyze_try_def)

text \<open>
  C1. A request whose three fields are empty or whitespace: the body raises the
  \<open>HTTPException\<close> with status 400 before the extractor is called (the list of calls is
  empty), but the handler of line 97 catches it, and what \<open>analyze\<close> raises is an
  \<open>HTTPException\<close> with status 500, the signal of an internal failure.
\<close>

theorem analyze_blank_request:
  assumes "strip (or_empty (diagnosis request)) = []"
    and "strip (or_empty (prescription request)) = []"
    and "strip (or_empty (treatment request)) = []"
  shows "analyze nlp ICD11_DICT request =
           (Inl (HTTPException 500 (StrOf (HTTPException 400 (Literal ''No text provided.'')))), [])"
proof -
  have "request_text request = []"
    using assms by (auto simp add: request_text_unfold strip_Nil_iff isspace_space)
  then show ?thesis
    by (simp add: analyze_def analyze_try_def)
qed

theorem analyze_blank_request_witness:
  "analyze (stub_extractor ents_fracture) table_fracture
      \<lparr>diagnosis = Some '''', prescription = Some '''', treatment = Some ''''\<rparr> =
     (Inl (HTTPException 500 (StrOf (HTTPException 400 (Literal ''No text provided.'')))), [])"
  using analyze_blank_request
    [of "\<lparr>diagnosis = Some '''', prescription = Some '''', treatment = Some ''''\<rparr>"
        "stub_extractor ents_fracture" table_fracture]
  by (simp add: or_empty_def string_defs)

text \<open>
  C2, as stated, fails: with a diagnosis and a treatment and an empty prescription, the
  empty field is joined like the others, and two spaces separate the two texts.
\<close>

theorem request_text_counterexample:
  "request_text \<lparr>diagnosis = Some ''a'', prescription = Some '''', treatment = Some ''b''\<rparr> = ''a  b''
   \<and> spec_request_text \<lparr>diagnosis = Some ''a'', prescription = Some '''', treatment = Some ''b''\<rparr> = ''a b''"
  by (simp add: request_text_def spec_request_text_def or_empty_def string_defs)

text \<open>
  C2, amended: the text is the three fields (an absent one as the empty string), each two
  neighbours separated by one space, empty fields included, then trimmed. It is the
  trimmed join of the non-empty fields whenever the prescription is not empty, or the
  diagnosis is empty, or the treatment is empty.
\<close>

theorem request_text_joins_all_fields:
  "request_text request =
     strip (or_empty (diagnosis request) @ '' '' @ or_empty (prescription request) @ '' '' @
            or_empty (treatment request))
   \<and> (or_empty (prescription request) \<noteq> [] \<or> or_empty (diagnosis request) = []
        \<or> or_empty (treatment request) = []
      \<longrightarrow> request_text request = spec_request_text request)"
proof -
  have a: "strip (x @ '' '') = strip x" for x
    by (rule strip_space_snoc)
  have b: "strip (x @ CHR '' '' # y @ '' '') = strip (x @ CHR '' '' # y)" for x y
    using strip_space_snoc [of "x @ CHR '' '' # y"] by simp
  have c: "strip (x @ ''  '') = strip x" for x
    using strip_space_snoc [of "x @ '' ''"] by (simp add: a)
  show ?thesis
    by (simp add: request_text_def spec_request_text_def strip_space_Cons a b c)
qed

theorem request_text_joins_all_fields_witness:
  "or_empty (prescription \<lparr>diagnosis = Some ''a'', prescription = Some ''b'', treatment = None\<rparr>) \<noteq> []
   \<and> request_text \<lparr>diagnosis = Some ''a'', prescription = Some ''b'', treatment = None\<rparr> =
     spec_request_text \<lparr>diagnosis = Some ''a'', prescription = Some ''b'', treatment = None\<rparr>"
proof -
  have h: "or_empty (prescription \<lparr>diagnosis = Some ''a'', prescription = Some ''b'', treatment = None\<rparr>) \<noteq> []"
    by (simp add: or_empty_def)
  from h request_text_joins_all_fields
    [of "\<lparr>diagnosis = Some ''a'', prescription = Some ''b'', treatment = None\<rparr>"]
  show ?thesis by blast
qed

section \<open>The dictionary built from the export\<close>

lemmas row_defs = build_icd_dict_def add_row_def title_of_def code_of_def class_kind_of_def
  row_get_def accepted_def key_of_def entry_of_def

lemma add_row_eq: "add_row t r = (if accepted r then t(key_of r \<mapsto> entry_of r) else t)"
  by (auto simp add: add_row_def accepted_def key_of_def entry_of_def Let_def)

lemma build_icd_dict_snoc: "build_icd_dict (rows @ [r]) = add_row (build_icd_dict rows) r"
  by (simp add: build_icd_dict_def)

text \<open>
  The value of a key in the dictionary is the entry of the last row, in the order of the
  export, that passes the test of line 16 and has this key.
\<close>

lemma build_icd_dict_find:
  "build_icd_dict rows key =
     map_option entry_of (find (\<lambda>r. accepted r \<and> key_of r = key) (rev rows))"
proof (induction rows rule: rev_induct)
  case Nil
  show ?case by (simp add: build_icd_dict_def)
next
  case (snoc r rows)
  then show ?case by (simp add: build_icd_dict_snoc add_row_eq)
qed

lemma find_SomeD: "find P xs = Some x \<Longrightarrow> x \<in> set xs \<and> P x"
  by (induction xs) (auto split: if_splits)

lemma build_icd_dict_Some:
  assumes "build_icd_dict rows key = Some v"
  shows "\<exists>r\<in>set rows. accepted r \<and> key = key_of r \<and> v = entry_of r"
proof -
  from assms obtain r where "find (\<lambda>r. accepted r \<and> key_of r = key) (rev rows) = Some r"
    and v: "v = entry_of r"
    by (auto simp add: build_icd_dict_find)
  then have "r \<in> set rows \<and> accepted r \<and> key_of r = key"
    by (auto dest: find_SomeD)
  with v show ?thesis by auto
qed

lemma build_icd_dict_accepted:
  assumes "r \<in> set rows" and "accepted r"
  shows "\<exists>r'\<in>set rows. accepted r' \<and> key_of r' = key_of r \<and> build_icd_dict rows (key_of r) = Some (entry_of r')"
proof -
  have "find (\<lambda>x. accepted x \<and> key_of x = key_of r) (rev rows) \<noteq> None"
    using assms by (auto simp add: find_None_iff)
  then obtain r' where f: "find (\<lambda>x. accepted x \<and> key_of x = key_of r) (rev rows) = Some r'"
    by auto
  then have "r' \<in> set rows \<and> accepted r' \<and> key_of r' = key_of r"
    by (auto dest: find_SomeD)
  with f show ?thesis by (auto simp add: build_icd_dict_find)
qed

text \<open>
  C4, as stated, fails: a row whose \<open>ClassKind\<close> is \<open>" category"\<close>, which is not the
  string \<open>"category"\<close>, is inserted, since line 14 trims the field before line 16
  compares it.
\<close>

theorem add_row_counterexample:
  "row_get row_cholera ''ClassKind'' \<noteq> ''category''
   \<and> add_row Map.empty row_cholera ''cholera'' =
       Some (IcdDict [(''code'', Some ''1A00''), (''desc'', Some ''Cholera'')])"
  by (simp add: row_cholera_def row_defs string_defs)

text \<open>
  C4, amended: a row is inserted if and only if its trimmed \<open>ClassKind\<close> is
  \<open>"category"\<close> and both its trimmed \<open>Code\<close> and its cleaned \<open>Title\<close> (trimmed, the double
  quotes around it stripped, hyphens removed, trimmed again) are non-empty. The key is the
  lower-cased cleaned title and the value holds the trimmed code and the cleaned title. So
  every entry of the built dictionary has a non-empty code and a non-empty description, and
  its key is its description in lower case.
\<close>

theorem add_row_accepts_category_rows:
  "add_row icd_dict r =
     (if strip (row_get r ''ClassKind'') = ''category'' \<and> strip (row_get r ''Code'') \<noteq> []
         \<and> title_of r \<noteq> []
      then icd_dict(lower (title_of r) \<mapsto>
             IcdDict [(''code'', Some (strip (row_get r ''Code''))), (''desc'', Some (title_of r))])
      else icd_dict)
   \<and> title_of r =
       strip (remove_char (CHR ''-'') (strip_chars (\<lambda>c. c = CHR 0x22) (strip (row_get r ''Title''))))
   \<and> (\<forall>key v. build_icd_dict rows key = Some v \<longrightarrow>
         (\<exists>code title. v = IcdDict [(''code'', Some code), (''desc'', Some title)]
            \<and> code \<noteq> [] \<and> title \<noteq> [] \<and> key = lower title))"
proof (intro conjI allI impI)
  show "add_row icd_dict r =
     (if strip (row_get r ''ClassKind'') = ''category'' \<and> strip (row_get r ''Code'') \<noteq> []
         \<and> title_of r \<noteq> []
      then icd_dict(lower (title_of r) \<mapsto>
             IcdDict [(''code'', Some (strip (row_get r ''Code''))), (''desc'', Some (title_of r))])
      else icd_dict)"
    by (simp add: add_row_def code_of_def class_kind_of_def Let_def)
next
  show "title_of r =
       strip (remove_char (CHR ''-'') (strip_chars (\<lambda>c. c = CHR 0x22) (strip (row_get r ''Title''))))"
    by (simp add: title_of_def)
next
  fix key v
  assume "build_icd_dict rows key = Some v"
  then obtain x where "accepted x" and "key = key_of x" and "v = entry_of x"
    using build_icd_dict_Some by blast
  then show "\<exists>code title. v = IcdDict [(''code'', Some code), (''desc'', Some title)]
            \<and> code \<noteq> [] \<and> title \<noteq> [] \<and> key = lower title"
    by (simp add: accepted_def key_of_def entry_of_def)
qed

theorem add_row_accepts_category_rows_witness:
  "add_row Map.empty row_typhoid =
     [''typhoid fever'' \<mapsto> IcdDict [(''code'', Some ''1A07''), (''desc'', Some ''Typhoid fever'')]]
   \<and> build_icd_dict [row_typhoid] ''typhoid fever'' =
       Some (IcdDict [(''code'', Some ''1A07''), (''desc'', Some ''Typhoid fever'')])
   \<and> (\<exists>code title.
         IcdDict [(''code'', Some ''1A07''), (''desc'', Some ''Typhoid fever'')] =
           IcdDict [(''code'', Some code), (''desc'', Some title)]
         \<and> code \<noteq> [] \<and> title \<noteq> [] \<and> ''typhoid fever'' = lower title)"
proof -
  have t: "title_of row_typhoid = ''Typhoid fever''"
    by (simp add: row_typhoid_def title_of_def row_get_def string_defs)
  have c: "strip (row_get row_typhoid ''Code'') = ''1A07''"
    by (simp add: row_typhoid_def row_get_def string_defs)
  have k: "strip (row_get row_typhoid ''ClassKind'') = ''category''"
    by (simp add: row_typhoid_def row_get_def string_defs)
  have l: "lower ''Typhoid fever'' = ''typhoid fever''"
    by (simp add: string_defs)
  note inst = add_row_accepts_category_rows [where icd_dict = Map.empty and r = row_typhoid and rows = "[row_typhoid]"]
  have a: "add_row Map.empty row_typhoid =
     [''typhoid fever'' \<mapsto> IcdDict [(''code'', Some ''1A07''), (''desc'', Some ''Typhoid fever'')]]"
    using inst by (simp add: t c k l)
  have b: "build_icd_dict [row_typhoid] ''typhoid fever'' =
       Some (IcdDict [(''code'', Some ''1A07''), (''desc'', Some ''Typhoid fever'')])"
    using a by (simp add: build_icd_dict_def)
  from inst b show ?thesis using a by blast
qed

lemma find_append_eq:
  "find P (xs @ ys) = (case find P xs of None \<Rightarrow> find P ys | Some x \<Rightarrow> Some x)"
  by (induction xs) auto

text \<open>
  C7: the builder is a total function (nothing is raised when a key is written again), the
  value of every key is the entry of the last accepted row with this key, and an accepted
  row followed by no accepted row of the same key is the one the dictionary holds.
\<close>

theorem build_icd_dict_last_write_wins:
  "build_icd_dict rows key =
     map_option entry_of (find (\<lambda>r. accepted r \<and> key_of r = key) (rev rows))
   \<and> (accepted r \<and> key_of r = key \<and> (\<forall>x\<in>set later. accepted x \<longrightarrow> key_of x \<noteq> key)
      \<longrightarrow> build_icd_dict (earlier @ r # later) key = Some (entry_of r))"
proof (intro conjI impI)
  show "build_icd_dict rows key =
     map_option entry_of (find (\<lambda>r. accepted r \<and> key_of r = key) (rev rows))"
    by (rule build_icd_dict_find)
next
  assume h: "accepted r \<and> key_of r = key \<and> (\<forall>x\<in>set later. accepted x \<longrightarrow> key_of x \<noteq> key)"
  then have "find (\<lambda>r. accepted r \<and> key_of r = key) (rev later) = None"
    by (auto simp add: find_None_iff)
  with h show "build_icd_dict (earlier @ r # later) key = Some (entry_of r)"
    by (simp add: build_icd_dict_find find_append_eq)
qed

theorem build_icd_dict_last_write_wins_witness:
  "accepted row_typhoid2 \<and> key_of row_typhoid2 = ''typhoidfever''
   \<and> build_icd_dict ([row_typhoid2, row_typhoid] @ row_typhoid2 # [row_typhoid]) ''typhoidfever'' =
       Some (IcdDict [(''code'', Some ''1A07.Z''), (''desc'', Some ''typhoidfever'')])"
proof -
  have a: "accepted row_typhoid2 \<and> key_of row_typhoid2 = ''typhoidfever''"
    by (simp add: row_typhoid2_def row_defs string_defs)
  have b: "\<forall>x\<in>set [row_typhoid]. accepted x \<longrightarrow> key_of x \<noteq> ''typhoidfever''"
    by (simp add: row_typhoid_def row_defs string_defs)
  have c: "entry_of row_typhoid2 = IcdDict [(''code'', Some ''1A07.Z''), (''desc'', Some ''typhoidfever'')]"
    by (simp add: row_typhoid2_def row_defs string_defs)
  have d: "build_icd_dict ([row_typhoid2, row_typhoid] @ row_typhoid2 # [row_typhoid]) ''typhoidfever'' =
       Some (entry_of row_typhoid2)"
    using build_icd_dict_last_write_wins
      [where rows = "[]" and key = "''typhoidfever''" and r = row_typhoid2
         and later = "[row_typhoid]" and earlier = "[row_typhoid2, row_typhoid]"] a b
    by blast
  show ?thesis using a d by (simp only: c simp_thms)
qed

subsection \<open>Looking up the titles of the export\<close>

lemma set_strip_chars: "set (strip_chars p s) \<subseteq> set s"
proof -
  have "set (dropWhile p (rev (dropWhile p s))) \<subseteq> set (dropWhile p s)"
    using set_dropWhileD [of _ p "rev (dropWhile p s)"] by auto
  moreover have "set (dropWhile p s) \<subseteq> set s"
    using set_dropWhileD [of _ p s] by auto
  ultimately show ?thesis by (auto simp add: strip_chars_def)
qed

lemma remove_char_absent: "c \<notin> set s \<Longrightarrow> remove_char c s = s"
  by (auto simp add: remove_char_def filter_id_conv)

lemma title_of_stripped: "strip (title_of r) = title_of r"
  by (simp add: title_of_def strip_idem)

lemma title_of_plain:
  assumes "CHR ''-'' \<notin> set (row_get r ''Title'')"
    and "strip_chars (\<lambda>c. c = CHR 0x22) (strip (row_get r ''Title'')) = strip (row_get r ''Title'')"
  shows "title_of r = strip (row_get r ''Title'')"
proof -
  have "CHR ''-'' \<notin> set (strip (row_get r ''Title''))"
    using assms(1) set_strip_chars [of isspace "row_get r ''Title''"] by (auto simp add: strip_def)
  then show ?thesis
    by (simp add: title_of_def assms(2) remove_char_absent strip_idem)
qed

lemma lookup_ent_hit:
  assumes "t (lower (strip (ent_text e))) = Some (IcdDict [(''code'', Some c), (''desc'', Some d)])"
  shows "lookup_ent t e =
           \<lparr>icd_info = Some (IcdDict [(''code'', Some c), (''desc'', Some d)]),
            icd_code = Some c, icd_description = Some d, confidence = 1\<rparr>"
  using assms by (simp add: lookup_ent_def info_truthy_def dict_get_def)

text \<open>
  C3, as stated, fails: the row with the title \<open>Non-specific\<close> is accepted and stored
  under the key \<open>nonspecific\<close>, and an entity whose text is this title is looked up as
  \<open>non-specific\<close>, which is not a key.
\<close>

theorem hyphen_counterexample:
  "build_icd_dict [row_hyphen] ''nonspecific'' =
       Some (IcdDict [(''code'', Some ''1B2Z''), (''desc'', Some ''Nonspecific'')])
   \<and> lookup_ent (build_icd_dict [row_hyphen])
        \<lparr>ent_text = row_get row_hyphen ''Title'', ent_label = ''DISEASE''\<rparr> =
       \<lparr>icd_info = None, icd_code = None, icd_description = None, confidence = 0\<rparr>"
  by (simp add: row_hyphen_def row_defs string_defs lookup_ent_def info_truthy_def)

text \<open>
  C3, amended: for every accepted row of the export, an entity whose text is the cleaned
  title of the row, or its raw \<open>Title\<close> when this contains no hyphen and, once trimmed, has
  no double quote at either end, is found in the built dictionary, with confidence 1.0.
\<close>

theorem cleaned_title_resolves:
  assumes "r \<in> set rows" and "accepted r"
    and "ent_text e = title_of r
         \<or> (ent_text e = row_get r ''Title'' \<and> CHR ''-'' \<notin> set (row_get r ''Title'')
            \<and> strip_chars (\<lambda>c. c = CHR 0x22) (strip (row_get r ''Title'')) =
                strip (row_get r ''Title''))"
  shows "confidence (lookup_ent (build_icd_dict rows) e) = 1
         \<and> icd_code (lookup_ent (build_icd_dict rows) e) \<noteq> None"
proof -
  have "strip (ent_text e) = title_of r"
    using assms(3) by (auto simp add: title_of_stripped title_of_plain)
  then have k: "lower (strip (ent_text e)) = key_of r"
    by (simp add: key_of_def)
  from build_icd_dict_accepted [OF assms(1,2)] obtain r'
    where "build_icd_dict rows (key_of r) = Some (entry_of r')"
    by blast
  with k have "build_icd_dict rows (lower (strip (ent_text e))) =
                 Some (IcdDict [(''code'', Some (code_of r')), (''desc'', Some (title_of r'))])"
    by (simp add: entry_of_def)
  then have "lookup_ent (build_icd_dict rows) e =
           \<lparr>icd_info = Some (IcdDict [(''code'', Some (code_of r')), (''desc'', Some (title_of r'))]),
            icd_code = Some (code_of r'), icd_description = Some (title_of r'), confidence = 1\<rparr>"
    by (rule lookup_ent_hit)
  then show ?thesis by simp
qed

theorem cleaned_title_resolves_witness:
  "row_hyphen \<in> set [row_hyphen, row_typhoid] \<and> accepted row_hyphen
   \<and> title_of row_hyphen = ''Nonspecific''
   \<and> confidence (lookup_ent (build_icd_dict [row_hyphen, row_typhoid])
        \<lparr>ent_text = ''Nonspecific'', ent_label = ''DISEASE''\<rparr>) = 1"
proof -
  have a: "row_hyphen \<in> set [row_hyphen, row_typhoid]" by simp
  have b: "accepted row_hyphen"
    by (simp add: row_hyphen_def row_defs string_defs)
  have c: "title_of row_hyphen = ''Nonspecific''"
    by (simp add: row_hyphen_def row_defs string_defs)
  have d: "ent_text \<lparr>ent_text = ''Nonspecific'', ent_label = ''DISEASE''\<rparr> = title_of row_hyphen"
    by (simp add: c)
  from cleaned_title_resolves [OF a b disjI1, OF d] a b c show ?thesis by simp
qed

section \<open>The loop over the entities\<close>

lemmas loop_defs = run_loop_def loop_body_def add_code_def entity_of_def lookup_ent_def
  info_truthy_def dict_get_def

lemma lookup_ent_falsy:
  "\<not> info_truthy (t (lower (strip (ent_text e)))) \<Longrightarrow>
     lookup_ent t e =
       \<lparr>icd_info = t (lower (strip (ent_text e))), icd_code = None, icd_description = None,
        confidence = 0\<rparr>"
  by (simp add: lookup_ent_def)

lemma lookup_ent_dict:
  "t (lower (strip (ent_text e))) = Some (IcdDict d) \<Longrightarrow> d \<noteq> [] \<Longrightarrow>
     lookup_ent t e =
       \<lparr>icd_info = Some (IcdDict d), icd_code = dict_get d ''code'',
        icd_description = dict_get d ''desc'', confidence = 1\<rparr>"
  by (simp add: lookup_ent_def info_truthy_def)

lemma lookup_ent_str:
  "t (lower (strip (ent_text e))) = Some (IcdStr s) \<Longrightarrow> s \<noteq> [] \<Longrightarrow>
     lookup_ent t e =
       \<lparr>icd_info = Some (IcdStr s), icd_code = Some s, icd_description = None, confidence = 1\<rparr>"
  by (simp add: lookup_ent_def info_truthy_def)

lemma lookup_ent_confidence:
  "confidence (lookup_ent t e) = (if info_truthy (icd_info (lookup_ent t e)) then 1 else 0)"
  by (simp add: lookup_ent_def Let_def split: option.splits icd_value.splits)

lemma lookup_ent_code_truthy:
  "icd_code (lookup_ent t e) = Some c \<Longrightarrow> info_truthy (icd_info (lookup_ent t e))"
  by (simp add: lookup_ent_def Let_def split: option.splits icd_value.splits if_splits)

lemma ls_entities_loop_body:
  "ls_entities (loop_body t st e) = ls_entities st @ [entity_of e (lookup_ent t e)]"
  by (simp add: loop_body_def add_code_def Let_def split: option.splits)

lemma ls_seen_codes_loop_body:
  "ls_seen_codes (loop_body t st e) =
     (case icd_code (lookup_ent t e) of
        None \<Rightarrow> ls_seen_codes st
      | Some c \<Rightarrow> if c \<noteq> [] \<and> c \<notin> ls_seen_codes st then insert c (ls_seen_codes st)
                  else ls_seen_codes st)"
  by (simp add: loop_body_def add_code_def Let_def lookup_ent_code_truthy split: option.splits)

lemma ls_icd_codes_loop_body:
  "ls_icd_codes (loop_body t st e) = ls_icd_codes st @ code_results t (ls_seen_codes st) [e]"
  by (simp add: loop_body_def add_code_def Let_def lookup_ent_code_truthy code_result_of_def
      split: option.splits)

lemma ls_entities_foldl:
  "ls_entities (foldl (loop_body t) st es) =
     ls_entities st @ map (\<lambda>e. entity_of e (lookup_ent t e)) es"
  by (induction es arbitrary: st) (simp_all add: ls_entities_loop_body)

lemma ls_icd_codes_foldl:
  "ls_icd_codes (foldl (loop_body t) st es) =
     ls_icd_codes st @ code_results t (ls_seen_codes st) es"
proof (induction es arbitrary: st)
  case Nil
  show ?case by simp
next
  case (Cons e es)
  show ?case
    by (simp add: Cons.IH ls_icd_codes_loop_body ls_seen_codes_loop_body split: option.splits)
qed

lemma entities_run_loop:
  "entities (run_loop t es) = map (\<lambda>e. entity_of e (lookup_ent t e)) es"
  by (simp add: run_loop_def ls_entities_foldl)

lemma icd_codes_run_loop: "icd_codes (run_loop t es) = code_results t {} es"
  by (simp add: run_loop_def ls_icd_codes_foldl)

lemma analyze_ok:
  "request_text request \<noteq> [] \<Longrightarrow> nlp (request_text request) = Inr ents \<Longrightarrow>
     analyze nlp t request = (Inr (run_loop t ents), [request_text request])"
  by (simp add: analyze_def analyze_try_def)

lemma analyze_Inr:
  assumes "fst (analyze nlp t request) = Inr response"
  shows "\<exists>ents. request_text request \<noteq> [] \<and> nlp (request_text request) = Inr ents
           \<and> response = run_loop t ents"
  using assms
  by (auto simp add: analyze_def analyze_try_def Let_def split: if_splits sum.splits)

subsection \<open>The entries of the list of codes\<close>

text \<open>
  An added entry has a non-empty code that was not seen before, and confidence 1; the codes
  of the added entries are distinct; each entry is built from the first entity of the list
  with its code.
\<close>

lemma code_results_fresh:
  "cr \<in> set (code_results t seen es) \<Longrightarrow>
     \<exists>c. cr_icd_code cr = Some c \<and> c \<noteq> [] \<and> c \<notin> seen \<and> cr_confidence cr = 1"
proof (induction es arbitrary: seen)
  case Nil
  then show ?case by simp
next
  case (Cons e es)
  then show ?case
    by (fastforce simp add: code_result_of_def lookup_ent_confidence lookup_ent_code_truthy
        split: option.splits if_splits)
qed

lemma code_results_distinct: "distinct (map cr_icd_code (code_results t seen es))"
proof (induction es arbitrary: seen)
  case Nil
  show ?case by simp
next
  case (Cons e es)
  show ?case
    using Cons.IH code_results_fresh [of _ t "insert _ seen" es]
    by (fastforce simp add: code_result_of_def split: option.splits)
qed

lemma code_results_first:
  "cr \<in> set (code_results t seen es) \<Longrightarrow>
     \<exists>e. find (\<lambda>e. icd_code (lookup_ent t e) = cr_icd_code cr) es = Some e
        \<and> cr = code_result_of e (lookup_ent t e)"
proof (induction es arbitrary: seen)
  case Nil
  then show ?case by simp
next
  case (Cons e es)
  show ?case
  proof (cases "\<exists>c. icd_code (lookup_ent t e) = Some c \<and> c \<noteq> [] \<and> c \<notin> seen")
    case True
    then obtain c where c: "icd_code (lookup_ent t e) = Some c" "c \<noteq> []" "c \<notin> seen"
      by blast
    with Cons.prems have "cr = code_result_of e (lookup_ent t e)
        \<or> cr \<in> set (code_results t (insert c seen) es)"
      by simp
    then show ?thesis
    proof
      assume "cr = code_result_of e (lookup_ent t e)"
      then show ?thesis by (simp add: code_result_of_def)
    next
      assume in_rest: "cr \<in> set (code_results t (insert c seen) es)"
      from code_results_fresh [OF this] have "cr_icd_code cr \<noteq> Some c" by auto
      with c Cons.IH [OF in_rest] show ?thesis by simp
    qed
  next
    case False
    with Cons.prems have in_rest: "cr \<in> set (code_results t seen es)"
      by (auto split: option.splits if_splits)
    from code_results_fresh [OF this] False
    have "icd_code (lookup_ent t e) \<noteq> cr_icd_code cr" by auto
    with Cons.IH [OF in_rest] show ?thesis by simp
  qed
qed

lemma code_results_codes:
  "cr_icd_code ` set (code_results t seen es) =
     {x. \<exists>c. x = Some c \<and> c \<noteq> [] \<and> c \<notin> seen \<and> (\<exists>e\<in>set es. icd_code (lookup_ent t e) = Some c)}"
proof (induction es arbitrary: seen)
  case Nil
  show ?case by simp
next
  case (Cons e es)
  show ?case
    by (auto simp add: Cons.IH code_result_of_def split: option.splits)
qed

subsection \<open>The example request\<close>

lemma request_text_fracture: "request_text request_fracture = ''fracture  Fracture''"
  by (simp add: request_fracture_def request_text_def or_empty_def string_defs)

lemma run_loop_fracture:
  "run_loop table_fracture ents_fracture =
     \<lparr>entities =
        [\<lparr>er_text = ''fracture'', er_label = ''DISEASE'', er_icd_code = Some ''FA01'',
          er_icd_description = Some ''Fracture'', er_confidence = 1\<rparr>,
         \<lparr>er_text = ''Fracture'', er_label = ''DISEASE'', er_icd_code = Some ''FA01'',
          er_icd_description = Some ''Fracture'', er_confidence = 1\<rparr>],
      icd_codes =
        [\<lparr>cr_entity = ''fracture'', cr_icd_code = Some ''FA01'',
          cr_icd_description = Some ''Fracture'', cr_confidence = 1\<rparr>]\<rparr>"
  by (simp add: table_fracture_def ents_fracture_def loop_defs string_defs)

lemma analyze_fracture:
  "analyze (stub_extractor ents_fracture) t request_fracture =
     (Inr (run_loop t ents_fracture), [''fracture  Fracture''])"
  using analyze_ok [of request_fracture "stub_extractor ents_fracture" ents_fracture t]
  by (simp add: request_text_fracture stub_extractor_def)

lemma run_loop_empty_code:
  "run_loop table_empty_code ents_fracture =
     (\<lparr>entities =
             [\<lparr>er_text = ''fracture'', er_label = ''DISEASE'', er_icd_code = Some '''',
               er_icd_description = Some ''Fracture'', er_confidence = 1\<rparr>,
              \<lparr>er_text = ''Fracture'', er_label = ''DISEASE'', er_icd_code = Some '''',
               er_icd_description = Some ''Fracture'', er_confidence = 1\<rparr>],
           icd_codes = []\<rparr>)"
  by (simp add: table_empty_code_def ents_fracture_def loop_defs string_defs)

section \<open>The results of analyze\<close>

text \<open>
  C5, as stated, fails: a key that is in the dictionary with an empty object, or with an
  empty string, as its value is found by \<open>ICD11_DICT.get\<close>, and line 72 and line 74 test
  the truth value of what was found, so the entity gets null, null and confidence 0.0.
\<close>

theorem entities_falsy_entry_counterexample:
  "table_falsy (lower (strip '' Fracture'')) = Some (IcdDict [])
   \<and> table_falsy (lower (strip ''cough'')) = Some (IcdStr '''')
   \<and> analyze (stub_extractor ents_visit) table_falsy request_fracture =
      (Inr \<lparr>entities =
              [\<lparr>er_text = '' Fracture'', er_label = ''DISEASE'', er_icd_code = None,
                er_icd_description = None, er_confidence = 0\<rparr>,
               \<lparr>er_text = ''cough'', er_label = ''SYMPTOM'', er_icd_code = None,
                er_icd_description = None, er_confidence = 0\<rparr>],
            icd_codes = []\<rparr>,
       [''fracture  Fracture''])"
proof -
  have "analyze (stub_extractor ents_visit) table_falsy request_fracture =
          (Inr (run_loop table_falsy ents_visit), [''fracture  Fracture''])"
    using analyze_ok [of request_fracture "stub_extractor ents_visit" ents_visit table_falsy]
    by (simp add: request_text_fracture stub_extractor_def)
  moreover have "run_loop table_falsy ents_visit =
          \<lparr>entities =
              [\<lparr>er_text = '' Fracture'', er_label = ''DISEASE'', er_icd_code = None,
                er_icd_description = None, er_confidence = 0\<rparr>,
               \<lparr>er_text = ''cough'', er_label = ''SYMPTOM'', er_icd_code = None,
                er_icd_description = None, er_confidence = 0\<rparr>],
            icd_codes = []\<rparr>"
    by (simp add: table_falsy_def ents_visit_def loop_defs string_defs)
  moreover have "table_falsy (lower (strip '' Fracture'')) = Some (IcdDict [])
      \<and> table_falsy (lower (strip ''cough'')) = Some (IcdStr '''')"
    by (simp add: table_falsy_def string_defs)
  ultimately show ?thesis by simp
qed

text \<open>
  C5, amended: when the text is not empty and the extractor returns, \<open>analyze\<close> returns a
  response (nothing is raised for an entity that is not found) with one entity result per
  extracted entity, in order, carrying its text and label. If the normalized text maps to
  a non-empty object, the result carries the \<open>code\<close> and \<open>desc\<close> members of this object
  (null for a member that is missing) and confidence 1.0; if it maps to a non-empty string,
  the result carries this string as its code, a null description and confidence 1.0; if it
  is not a key, or maps to an empty object or to an empty string, the result carries null,
  null and 0.0. The confidence is always 1.0 or 0.0.
\<close>

theorem entities_resolved:
  assumes "request_text request \<noteq> []" and "nlp (request_text request) = Inr ents"
  shows "\<exists>response. fst (analyze nlp ICD11_DICT request) = Inr response
           \<and> length (entities response) = length ents
           \<and> (\<forall>i<length ents.
                 er_text (entities response ! i) = ent_text (ents ! i)
               \<and> er_label (entities response ! i) = ent_label (ents ! i)
               \<and> (\<forall>d. ICD11_DICT (lower (strip (ent_text (ents ! i)))) = Some (IcdDict d) \<and> d \<noteq> []
                     \<longrightarrow> er_icd_code (entities response ! i) = dict_get d ''code''
                       \<and> er_icd_description (entities response ! i) = dict_get d ''desc''
                       \<and> er_confidence (entities response ! i) = 1)
               \<and> (\<forall>s. ICD11_DICT (lower (strip (ent_text (ents ! i)))) = Some (IcdStr s) \<and> s \<noteq> []
                     \<longrightarrow> er_icd_code (entities response ! i) = Some s
                       \<and> er_icd_description (entities response ! i) = None
                       \<and> er_confidence (entities response ! i) = 1)
               \<and> (ICD11_DICT (lower (strip (ent_text (ents ! i)))) = None
                    \<or> ICD11_DICT (lower (strip (ent_text (ents ! i)))) = Some (IcdDict [])
                    \<or> ICD11_DICT (lower (strip (ent_text (ents ! i)))) = Some (IcdStr [])
                     \<longrightarrow> er_icd_code (entities response ! i) = None
                       \<and> er_icd_description (entities response ! i) = None
                       \<and> er_confidence (entities response ! i) = 0)
               \<and> (er_confidence (entities response ! i) = 1
                    \<or> er_confidence (entities response ! i) = 0))"
proof -
  have a: "fst (analyze nlp ICD11_DICT request) = Inr (run_loop ICD11_DICT ents)"
    using assms analyze_ok [of request nlp ents ICD11_DICT] by simp
  have b: "length (entities (run_loop ICD11_DICT ents)) = length ents"
    by (simp add: entities_run_loop)
  have c: "entities (run_loop ICD11_DICT ents) ! i = entity_of (ents ! i) (lookup_ent ICD11_DICT (ents ! i))"
    if "i < length ents" for i
    using that by (simp add: entities_run_loop)
  have d: "er_icd_code (entity_of e (lookup_ent ICD11_DICT e)) = dict_get d ''code''
         \<and> er_icd_description (entity_of e (lookup_ent ICD11_DICT e)) = dict_get d ''desc''
         \<and> er_confidence (entity_of e (lookup_ent ICD11_DICT e)) = 1"
    if "ICD11_DICT (lower (strip (ent_text e))) = Some (IcdDict d) \<and> d \<noteq> []" for e d
    using that by (simp add: entity_of_def lookup_ent_dict)
  have s: "er_icd_code (entity_of e (lookup_ent ICD11_DICT e)) = Some s
         \<and> er_icd_description (entity_of e (lookup_ent ICD11_DICT e)) = None
         \<and> er_confidence (entity_of e (lookup_ent ICD11_DICT e)) = 1"
    if "ICD11_DICT (lower (strip (ent_text e))) = Some (IcdStr s) \<and> s \<noteq> []" for e s
    using that by (simp add: entity_of_def lookup_ent_str)
  have e: "er_icd_code (entity_of e (lookup_ent ICD11_DICT e)) = None
         \<and> er_icd_description (entity_of e (lookup_ent ICD11_DICT e)) = None
         \<and> er_confidence (entity_of e (lookup_ent ICD11_DICT e)) = 0"
    if "ICD11_DICT (lower (strip (ent_text e))) = None
        \<or> ICD11_DICT (lower (strip (ent_text e))) = Some (IcdDict [])
        \<or> ICD11_DICT (lower (strip (ent_text e))) = Some (IcdStr [])" for e
  proof -
    from that have "\<not> info_truthy (ICD11_DICT (lower (strip (ent_text e))))"
      by (auto simp add: info_truthy_def)
    then show ?thesis by (simp add: entity_of_def lookup_ent_falsy)
  qed
  have f: "er_confidence (entity_of e (lookup_ent ICD11_DICT e)) = 1
         \<or> er_confidence (entity_of e (lookup_ent ICD11_DICT e)) = 0" for e
    by (simp add: entity_of_def lookup_ent_confidence)
  have g: "er_text (entity_of e l) = ent_text e \<and> er_label (entity_of e l) = ent_label e" for e l
    by (simp add: entity_of_def)
  have "er_text (entities (run_loop ICD11_DICT ents) ! i) = ent_text (ents ! i)
      \<and> er_label (entities (run_loop ICD11_DICT ents) ! i) = ent_label (ents ! i)
      \<and> (\<forall>d. ICD11_DICT (lower (strip (ent_text (ents ! i)))) = Some (IcdDict d) \<and> d \<noteq> []
            \<longrightarrow> er_icd_code (entities (run_loop ICD11_DICT ents) ! i) = dict_get d ''code''
              \<and> er_icd_description (entities (run_loop ICD11_DICT ents) ! i) = dict_get d ''desc''
              \<and> er_confidence (entities (run_loop ICD11_DICT ents) ! i) = 1)
      \<and> (\<forall>s. ICD11_DICT (lower (strip (ent_text (ents ! i)))) = Some (IcdStr s) \<and> s \<noteq> []
            \<longrightarrow> er_icd_code (entities (run_loop ICD11_DICT ents) ! i) = Some s
              \<and> er_icd_description (entities (run_loop ICD11_DICT ents) ! i) = None
              \<and> er_confidence (entities (run_loop ICD11_DICT ents) ! i) = 1)
      \<and> (ICD11_DICT (lower (strip (ent_text (ents ! i)))) = None
           \<or> ICD11_DICT (lower (strip (ent_text (ents ! i)))) = Some (IcdDict [])
           \<or> ICD11_DICT (lower (strip (ent_text (ents ! i)))) = Some (IcdStr [])
            \<longrightarrow> er_icd_code (entities (run_loop ICD11_DICT ents) ! i) = None
              \<and> er_icd_description (entities (run_loop ICD11_DICT ents) ! i) = None
              \<and> er_confidence (entities (run_loop ICD11_DICT ents) ! i) = 0)
      \<and> (er_confidence (entities (run_loop ICD11_DICT ents) ! i) = 1
           \<or> er_confidence (entities (run_loop ICD11_DICT ents) ! i) = 0)"
    if "i < length ents" for i
    unfolding c [OF that]
    using d [of "ents ! i"] s [of "ents ! i"] e [of "ents ! i"] f [of "ents ! i"]
      g [of "ents ! i" "lookup_ent ICD11_DICT (ents ! i)"]
    by blast
  with a b show ?thesis by blast
qed

theorem entities_resolved_witness:
  "request_text request_fracture \<noteq> []
   \<and> stub_extractor ents_shapes (request_text request_fracture) = Inr ents_shapes
   \<and> (\<exists>response.
         fst (analyze (stub_extractor ents_shapes) table_shapes request_fracture) = Inr response
       \<and> length (entities response) = 4
       \<and> er_icd_code (entities response ! 0) = Some ''FA01''
       \<and> er_icd_description (entities response ! 0) = Some ''Fracture''
       \<and> er_confidence (entities response ! 0) = 1
       \<and> er_icd_code (entities response ! 1) = Some ''MD12''
       \<and> er_icd_description (entities response ! 1) = None
       \<and> er_confidence (entities response ! 1) = 1
       \<and> er_icd_code (entities response ! 2) = None
       \<and> er_icd_description (entities response ! 2) = None
       \<and> er_confidence (entities response ! 2) = 0
       \<and> er_icd_code (entities response ! 3) = None
       \<and> er_icd_description (entities response ! 3) = None
       \<and> er_confidence (entities response ! 3) = 0)"
proof -
  have a: "request_text request_fracture \<noteq> []"
    by (simp add: request_text_fracture)
  have b: "stub_extractor ents_shapes (request_text request_fracture) = Inr ents_shapes"
    by (simp add: stub_extractor_def)
  have len: "length ents_shapes = 4"
    by (simp add: ents_shapes_def)
  have k0: "table_shapes (lower (strip (ent_text (ents_shapes ! 0)))) =
               Some (IcdDict [(''code'', Some ''FA01''), (''desc'', Some ''Fracture'')])"
    by (simp add: ents_shapes_def table_shapes_def string_defs)
  have k1: "table_shapes (lower (strip (ent_text (ents_shapes ! 1)))) = Some (IcdStr ''MD12'')"
    by (simp add: ents_shapes_def table_shapes_def string_defs)
  have k2: "table_shapes (lower (strip (ent_text (ents_shapes ! 2)))) = Some (IcdDict [])"
    by (simp add: ents_shapes_def table_shapes_def string_defs)
  have k3: "table_shapes (lower (strip (ent_text (ents_shapes ! 3)))) = None"
    by (simp add: ents_shapes_def table_shapes_def string_defs)
  have get: "dict_get [(''code'', Some ''FA01''), (''desc'', Some ''Fracture'')] ''code'' = Some ''FA01''
      \<and> dict_get [(''code'', Some ''FA01''), (''desc'', Some ''Fracture'')] ''desc'' = Some ''Fracture''"
    by (simp add: dict_get_def)
  from a b entities_resolved
    [where request = request_fracture and nlp = "stub_extractor ents_shapes"
       and ents = ents_shapes and ICD11_DICT = table_shapes]
  obtain response where
    r: "fst (analyze (stub_extractor ents_shapes) table_shapes request_fracture) = Inr response"
      "length (entities response) = length ents_shapes"
    and all: "\<And>i. i < length ents_shapes \<Longrightarrow>
        (\<forall>d. table_shapes (lower (strip (ent_text (ents_shapes ! i)))) = Some (IcdDict d) \<and> d \<noteq> []
           \<longrightarrow> er_icd_code (entities response ! i) = dict_get d ''code''
             \<and> er_icd_description (entities response ! i) = dict_get d ''desc''
             \<and> er_confidence (entities response ! i) = 1)
      \<and> (\<forall>s. table_shapes (lower (strip (ent_text (ents_shapes ! i)))) = Some (IcdStr s) \<and> s \<noteq> []
           \<longrightarrow> er_icd_code (entities response ! i) = Some s
             \<and> er_icd_description (entities response ! i) = None
             \<and> er_confidence (entities response ! i) = 1)
      \<and> (table_shapes (lower (strip (ent_text (ents_shapes ! i)))) = None
           \<or> table_shapes (lower (strip (ent_text (ents_shapes ! i)))) = Some (IcdDict [])
           \<or> table_shapes (lower (strip (ent_text (ents_shapes ! i)))) = Some (IcdStr [])
           \<longrightarrow> er_icd_code (entities response ! i) = None
             \<and> er_icd_description (entities response ! i) = None
             \<and> er_confidence (entities response ! i) = 0)"
    by blast
  have h0: "er_icd_code (entities response ! 0) = Some ''FA01''
      \<and> er_icd_description (entities response ! 0) = Some ''Fracture''
      \<and> er_confidence (entities response ! 0) = 1"
    using all [of 0] len k0 get by simp
  have h1: "er_icd_code (entities response ! 1) = Some ''MD12''
      \<and> er_icd_description (entities response ! 1) = None
      \<and> er_confidence (entities response ! 1) = 1"
    using all [of 1] len k1 by simp
  have h2: "er_icd_code (entities response ! 2) = None
      \<and> er_icd_description (entities response ! 2) = None
      \<and> er_confidence (entities response ! 2) = 0"
    using all [of 2] len k2 by simp
  have h3: "er_icd_code (entities response ! 3) = None
      \<and> er_icd_description (entities response ! 3) = None
      \<and> er_confidence (entities response ! 3) = 0"
    using all [of 3] len k3 by simp
  from a b r len h0 h1 h2 h3 show ?thesis by auto
qed

subsection \<open>The list of codes, in order\<close>

text \<open>
  The codes of the added entries are the non-empty codes of the entities that were not
  seen before, each at its first occurrence and in the order of the entities.
\<close>

lemma remdups_snoc: "remdups (ys @ [x]) = remdups (filter (\<lambda>y. y \<noteq> x) ys) @ [x]"
  by (induction ys) auto

lemma first_occurrences_Cons:
  "rev (remdups (rev (x # xs))) = x # rev (remdups (rev (filter (\<lambda>y. y \<noteq> x) xs)))"
  by (simp add: remdups_snoc rev_filter)

lemma code_results_code_list:
  "map cr_icd_code (code_results t seen es) =
     rev (remdups (rev (filter (\<lambda>x. str_truthy x \<and> x \<notin> Some ` seen)
       (map (\<lambda>e. icd_code (lookup_ent t e)) es))))"
proof (induction es arbitrary: seen)
  case Nil
  show ?case by simp
next
  case (Cons e es)
  let ?cs = "map (\<lambda>e. icd_code (lookup_ent t e)) es"
  show ?case
  proof (cases "icd_code (lookup_ent t e)")
    case None
    then show ?thesis by (simp add: Cons.IH str_truthy_def)
  next
    case (Some c)
    show ?thesis
    proof (cases "c \<noteq> [] \<and> c \<notin> seen")
      case True
      have narrow: "filter (\<lambda>y. y \<noteq> Some c) (filter (\<lambda>x. str_truthy x \<and> x \<notin> Some ` seen) ys) =
            filter (\<lambda>x. str_truthy x \<and> x \<notin> Some ` insert c seen) ys" for ys
        by (induction ys) auto
      have keep: "filter (\<lambda>x. str_truthy x \<and> x \<notin> Some ` seen) (Some c # ?cs) =
            Some c # filter (\<lambda>x. str_truthy x \<and> x \<notin> Some ` seen) ?cs"
        using True by (auto simp add: str_truthy_def)
      have "map cr_icd_code (code_results t seen (e # es)) =
            Some c # map cr_icd_code (code_results t (insert c seen) es)"
        using Some True by (simp add: code_result_of_def)
      also have "\<dots> = Some c # rev (remdups (rev
            (filter (\<lambda>x. str_truthy x \<and> x \<notin> Some ` insert c seen) ?cs)))"
        by (simp only: Cons.IH)
      also have "\<dots> = rev (remdups (rev (Some c #
            filter (\<lambda>x. str_truthy x \<and> x \<notin> Some ` seen) ?cs)))"
        by (simp only: first_occurrences_Cons narrow)
      also have "\<dots> = rev (remdups (rev (filter (\<lambda>x. str_truthy x \<and> x \<notin> Some ` seen)
            (map (\<lambda>e. icd_code (lookup_ent t e)) (e # es)))))"
        using Some by (simp only: keep list.map)
      finally show ?thesis .
    next
      case False
      with Some show ?thesis by (auto simp add: Cons.IH str_truthy_def)
    qed
  qed
qed

text \<open>
  C6: the codes of the list of codes are pairwise different; they are the non-empty codes
  the extracted entities were resolved to, each once, in the order of their first
  occurrence; every entry of the list is built from the first extracted entity, in the order
  of extraction, that was resolved to its code, and carries the original text of this
  entity; and every entity that was resolved to a non-empty code has exactly one entry with
  this code in the list.
\<close>

theorem icd_codes_distinct_first_wins:
  assumes "fst (analyze nlp ICD11_DICT request) = Inr response"
  shows "\<exists>ents. nlp (request_text request) = Inr ents
       \<and> distinct (map cr_icd_code (icd_codes response))
       \<and> map cr_icd_code (icd_codes response) =
           rev (remdups (rev (filter str_truthy
             (map (\<lambda>e. icd_code (lookup_ent ICD11_DICT e)) ents))))
       \<and> (\<forall>cr\<in>set (icd_codes response).
             \<exists>e. find (\<lambda>e. icd_code (lookup_ent ICD11_DICT e) = cr_icd_code cr) ents = Some e
                \<and> cr = \<lparr>cr_entity = ent_text e,
                         cr_icd_code = icd_code (lookup_ent ICD11_DICT e),
                         cr_icd_description = icd_description (lookup_ent ICD11_DICT e),
                         cr_confidence = confidence (lookup_ent ICD11_DICT e)\<rparr>)
       \<and> (\<forall>e\<in>set ents. str_truthy (icd_code (lookup_ent ICD11_DICT e)) \<longrightarrow>
             (\<exists>!cr. cr \<in> set (icd_codes response)
                   \<and> cr_icd_code cr = icd_code (lookup_ent ICD11_DICT e)))"
proof -
  from analyze_Inr [OF assms] obtain ents where
    n: "nlp (request_text request) = Inr ents" and r: "response = run_loop ICD11_DICT ents"
    by blast
  have d: "distinct (map cr_icd_code (icd_codes response))"
    by (simp add: r icd_codes_run_loop code_results_distinct)
  have l: "map cr_icd_code (icd_codes response) =
           rev (remdups (rev (filter str_truthy
             (map (\<lambda>e. icd_code (lookup_ent ICD11_DICT e)) ents))))"
    by (simp add: r icd_codes_run_loop code_results_code_list)
  have f: "\<exists>e. find (\<lambda>e. icd_code (lookup_ent ICD11_DICT e) = cr_icd_code cr) ents = Some e
                \<and> cr = \<lparr>cr_entity = ent_text e,
                         cr_icd_code = icd_code (lookup_ent ICD11_DICT e),
                         cr_icd_description = icd_description (lookup_ent ICD11_DICT e),
                         cr_confidence = confidence (lookup_ent ICD11_DICT e)\<rparr>"
    if "cr \<in> set (icd_codes response)" for cr
  proof -
    from that have "cr \<in> set (code_results ICD11_DICT {} ents)"
      by (simp add: r icd_codes_run_loop)
    from code_results_first [OF this] show ?thesis
      by (simp add: code_result_of_def)
  qed
  have u: "\<exists>!cr. cr \<in> set (icd_codes response)
                   \<and> cr_icd_code cr = icd_code (lookup_ent ICD11_DICT e)"
    if "e \<in> set ents" and "str_truthy (icd_code (lookup_ent ICD11_DICT e))" for e
  proof -
    from that have "icd_code (lookup_ent ICD11_DICT e) \<in> set (map cr_icd_code (icd_codes response))"
      unfolding l by simp
    then obtain cr where cr: "cr \<in> set (icd_codes response)"
        "cr_icd_code cr = icd_code (lookup_ent ICD11_DICT e)"
      by auto
    moreover have "x = cr"
      if "x \<in> set (icd_codes response)" "cr_icd_code x = icd_code (lookup_ent ICD11_DICT e)" for x
      using d that cr by (auto simp add: distinct_map inj_on_def)
    ultimately show ?thesis by blast
  qed
  from n d l f u show ?thesis by blast
qed

theorem icd_codes_distinct_first_wins_witness:
  "fst (analyze (stub_extractor ents_cough_fracture) table_fracture request_fracture) =
     Inr (run_loop table_fracture ents_cough_fracture)
   \<and> map cr_icd_code (icd_codes (run_loop table_fracture ents_cough_fracture)) = [Some ''FA01'']
   \<and> map cr_entity (icd_codes (run_loop table_fracture ents_cough_fracture)) = [''fracture'']"
proof -
  have a: "fst (analyze (stub_extractor ents_cough_fracture) table_fracture request_fracture) =
     Inr (run_loop table_fracture ents_cough_fracture)"
    using analyze_ok [of request_fracture "stub_extractor ents_cough_fracture"
        ents_cough_fracture table_fracture]
    by (simp add: request_text_fracture stub_extractor_def)
  have c: "map (\<lambda>e. icd_code (lookup_ent table_fracture e)) ents_cough_fracture =
             [None, Some ''FA01'', Some ''FA01'']"
    by (simp add: ents_cough_fracture_def table_fracture_def lookup_ent_def info_truthy_def
        dict_get_def string_defs)
  from icd_codes_distinct_first_wins [OF a] obtain ents where
    n: "stub_extractor ents_cough_fracture (request_text request_fracture) = Inr ents"
    and l: "map cr_icd_code (icd_codes (run_loop table_fracture ents_cough_fracture)) =
        rev (remdups (rev (filter str_truthy
          (map (\<lambda>e. icd_code (lookup_ent table_fracture e)) ents))))"
    and f: "\<forall>cr\<in>set (icd_codes (run_loop table_fracture ents_cough_fracture)).
        \<exists>e. find (\<lambda>e. icd_code (lookup_ent table_fracture e) = cr_icd_code cr) ents = Some e
           \<and> cr = \<lparr>cr_entity = ent_text e,
                    cr_icd_code = icd_code (lookup_ent table_fracture e),
                    cr_icd_description = icd_description (lookup_ent table_fracture e),
                    cr_confidence = confidence (lookup_ent table_fracture e)\<rparr>"
    by blast
  from n have e: "ents = ents_cough_fracture"
    by (simp add: stub_extractor_def)
  have codes: "map cr_icd_code (icd_codes (run_loop table_fracture ents_cough_fracture)) =
      [Some ''FA01'']"
    using l by (simp add: e c str_truthy_def)
  then obtain cr where one: "icd_codes (run_loop table_fracture ents_cough_fracture) = [cr]"
      and code: "cr_icd_code cr = Some ''FA01''"
    by auto
  from f one obtain x where
    x: "find (\<lambda>e. icd_code (lookup_ent table_fracture e) = cr_icd_code cr) ents_cough_fracture = Some x"
      "cr_entity cr = ent_text x"
    unfolding e by auto
  have "find (\<lambda>e. icd_code (lookup_ent table_fracture e) = Some ''FA01'') ents_cough_fracture =
          Some \<lparr>ent_text = ''fracture'', ent_label = ''DISEASE''\<rparr>"
    by (simp add: ents_cough_fracture_def table_fracture_def lookup_ent_def info_truthy_def
        dict_get_def string_defs)
  with x code have "cr_entity cr = ''fracture''" by auto
  with a codes one show ?thesis by simp
qed

text \<open>
  C10, as stated, fails: with an entry whose code is the empty string, the entities carry
  the code \<open>""\<close>, which is not null, and the list of codes is empty, since line 80
  requires a non-empty code.
\<close>

theorem analyze_empty_code_counterexample:
  "analyze (stub_extractor ents_fracture) table_empty_code request_fracture =
     (Inr \<lparr>entities =
             [\<lparr>er_text = ''fracture'', er_label = ''DISEASE'', er_icd_code = Some '''',
               er_icd_description = Some ''Fracture'', er_confidence = 1\<rparr>,
              \<lparr>er_text = ''Fracture'', er_label = ''DISEASE'', er_icd_code = Some '''',
               er_icd_description = Some ''Fracture'', er_confidence = 1\<rparr>],
           icd_codes = []\<rparr>,
      [''fracture  Fracture''])"
  by (simp add: analyze_fracture run_loop_empty_code)

text \<open>
  C10, amended: each entry of the list of codes has confidence 1.0 and a code that is
  neither null nor empty, and the codes of the list are exactly the codes of the entity
  results that are neither null nor empty.
\<close>

theorem icd_codes_match_entities:
  assumes "fst (analyze nlp ICD11_DICT request) = Inr response"
  shows "(\<forall>cr\<in>set (icd_codes response).
            cr_confidence cr = 1 \<and> (\<exists>c. cr_icd_code cr = Some c \<and> c \<noteq> []))
       \<and> cr_icd_code ` set (icd_codes response) =
           {c \<in> er_icd_code ` set (entities response). str_truthy c}"
proof -
  from analyze_Inr [OF assms] obtain ents where r: "response = run_loop ICD11_DICT ents"
    by blast
  have "cr_confidence cr = 1 \<and> (\<exists>c. cr_icd_code cr = Some c \<and> c \<noteq> [])"
    if "cr \<in> set (icd_codes response)" for cr
    using that code_results_fresh [of cr ICD11_DICT "{}" ents]
    by (auto simp add: r icd_codes_run_loop)
  moreover have "cr_icd_code ` set (icd_codes response) =
           {c \<in> er_icd_code ` set (entities response). str_truthy c}"
  proof -
    have L: "cr_icd_code ` set (icd_codes response) =
        {x. \<exists>c. x = Some c \<and> c \<noteq> [] \<and> (\<exists>e\<in>set ents. icd_code (lookup_ent ICD11_DICT e) = Some c)}"
      by (simp add: r icd_codes_run_loop code_results_codes)
    have R: "er_icd_code ` set (entities response) =
        (\<lambda>e. icd_code (lookup_ent ICD11_DICT e)) ` set ents"
      by (simp add: r entities_run_loop image_image entity_of_def)
    show ?thesis
      unfolding L R by (force simp add: str_truthy_def split: option.splits)
  qed
  ultimately show ?thesis by blast
qed

theorem icd_codes_match_entities_witness:
  "fst (analyze (stub_extractor ents_fracture) table_fracture request_fracture) =
     Inr (run_loop table_fracture ents_fracture)
   \<and> cr_icd_code ` set (icd_codes (run_loop table_fracture ents_fracture)) =
       {c \<in> er_icd_code ` set (entities (run_loop table_fracture ents_fracture)). str_truthy c}"
proof -
  have a: "fst (analyze (stub_extractor ents_fracture) table_fracture request_fracture) =
     Inr (run_loop table_fracture ents_fracture)"
    by (simp add: analyze_fracture)
  from icd_codes_match_entities [OF a] a show ?thesis by blast
qed

text \<open>
  C8: when the model is loaded and the dictionary is not, start-up succeeds with the empty
  dictionary; with it, every extracted entity gets a null code, a null description and
  confidence 0.0, and the list of codes is empty.
\<close>

theorem empty_table_service:
  "startup (Inr nlp) (Inl err) = Inr (nlp, Map.empty)
   \<and> (request_text request \<noteq> [] \<and> nlp (request_text request) = Inr ents \<longrightarrow>
        fst (analyze nlp Map.empty request) =
          Inr \<lparr>entities =
                 map (\<lambda>e. \<lparr>er_text = ent_text e, er_label = ent_label e, er_icd_code = None,
                            er_icd_description = None, er_confidence = 0\<rparr>) ents,
               icd_codes = []\<rparr>)"
proof -
  have l: "lookup_ent Map.empty e =
             \<lparr>icd_info = None, icd_code = None, icd_description = None, confidence = 0\<rparr>" for e
    by (simp add: lookup_ent_falsy info_truthy_def)
  have c: "code_results Map.empty seen es = []" for seen es
    by (induction es) (simp_all add: l)
  have "run_loop Map.empty ents =
          \<lparr>entities =
                 map (\<lambda>e. \<lparr>er_text = ent_text e, er_label = ent_label e, er_icd_code = None,
                            er_icd_description = None, er_confidence = 0\<rparr>) ents,
               icd_codes = []\<rparr>"
    using entities_run_loop [of Map.empty ents] icd_codes_run_loop [of Map.empty ents]
    by (cases "run_loop Map.empty ents") (simp add: l c entity_of_def)
  then show ?thesis
    by (simp add: startup_def analyze_ok)
qed

theorem empty_table_service_witness:
  "request_text request_fracture \<noteq> []
   \<and> stub_extractor ents_fracture (request_text request_fracture) = Inr ents_fracture
   \<and> fst (analyze (stub_extractor ents_fracture) Map.empty request_fracture) =
       Inr \<lparr>entities =
              [\<lparr>er_text = ''fracture'', er_label = ''DISEASE'', er_icd_code = None,
                er_icd_description = None, er_confidence = 0\<rparr>,
               \<lparr>er_text = ''Fracture'', er_label = ''DISEASE'', er_icd_code = None,
                er_icd_description = None, er_confidence = 0\<rparr>],
            icd_codes = []\<rparr>"
proof -
  have a: "request_text request_fracture \<noteq> []"
    by (simp add: request_text_fracture)
  have b: "stub_extractor ents_fracture (request_text request_fracture) = Inr ents_fracture"
    by (simp add: stub_extractor_def)
  from empty_table_service
    [where nlp = "stub_extractor ents_fracture" and request = request_fracture
       and ents = ents_fracture] a b
  have "fst (analyze (stub_extractor ents_fracture) Map.empty request_fracture) =
          Inr \<lparr>entities =
                 map (\<lambda>e. \<lparr>er_text = ent_text e, er_label = ent_label e, er_icd_code = None,
                            er_icd_description = None, er_confidence = 0\<rparr>) ents_fracture,
               icd_codes = []\<rparr>"
    by blast
  with a b show ?thesis by (simp add: ents_fracture_def)
qed

text \<open>
  C9: the result for an entity depends on the entity and the dictionary only, not on its
  position or on what the loop has seen before: wherever the same entity occurs, in one
  list of entities or in two, its entity result is the same.
\<close>

theorem resolution_repeatable:
  assumes "i < length ents" and "j < length ents'" and "ents ! i = ents' ! j"
  shows "entities (run_loop ICD11_DICT ents) ! i = entities (run_loop ICD11_DICT ents') ! j"
  using assms by (simp add: entities_run_loop)

theorem resolution_repeatable_witness:
  "(0::nat) < length ents_fracture \<and> (1::nat) < length (rev ents_fracture)
   \<and> ents_fracture ! 0 = rev ents_fracture ! 1
   \<and> entities (run_loop table_fracture ents_fracture) ! 0 =
       entities (run_loop table_fracture (rev ents_fracture)) ! 1"
proof -
  have a: "(0::nat) < length ents_fracture" by (simp add: ents_fracture_def)
  have b: "(1::nat) < length (rev ents_fracture)" by (simp add: ents_fracture_def)
  have c: "ents_fracture ! 0 = rev ents_fracture ! 1" by (simp add: ents_fracture_def)
  from resolution_repeatable [OF a b c] a b c show ?thesis by blast
qed

end
